theory Spec2Isabelle
  imports Main "HOL-Library.Sublist"
begin

section \<open>Treasury securities fetcher: primary source, fallback source, CSV output\<close>

text \<open>
  A shallow embedding of \<^verbatim>\<open>fetch_treasury_securities.py\<close>. The script issues an HTTP
  GET against a primary endpoint, falls back to a second endpoint when the first fetch
  raises, turns the JSON rows into a pandas DataFrame and writes it to a CSV file.

  The three functions of the script and its top-level driver are translated statement by
  statement. What the script calls but does not define (the network behind
  \<^verbatim>\<open>requests.get\<close>, the encoding of the console, and the parts of pandas whose result
  depends on dtype inference) is a field of the record \<open>env\<close>, so every theorem holds for
  any behaviour of those parts. Exceptions are values: each function returns
  \<open>py_exception + 'a\<close>, with \<open>Inl\<close> the exception that leaves the function. Effects are
  explicit: the record \<open>world\<close> holds the log of the GET requests issued so far and the
  files on disk, and is passed through.

  A \<^verbatim>\<open>print\<close> raises \<^verbatim>\<open>UnicodeEncodeError\<close> when the console cannot encode the line.
  The assembler and the driver print inside \<^verbatim>\<open>try\<close> blocks and handlers, where such an
  exception changes what runs next, so every \<^verbatim>\<open>print\<close> of theirs is a step of the model.
  A line of ASCII text is printed by every console; the two fetchers print such lines
  only, before their request, and these are left out.
\<close>

subsection \<open>JSON values, as \<^verbatim>\<open>response.json()\<close> returns them\<close>

text \<open>
  A parsed JSON object is a Python dict: an association list in the order of the body,
  whose keys are pairwise distinct. A number keeps the text of its literal; the script
  never looks at the value of a number.
\<close>

datatype json =
    JNull
  | JBool bool
  | JNumber string
  | JStr string
  | JArr "json list"
  | JObj "(string \<times> json) list"

subsection \<open>Exceptions\<close>

text \<open>
  The script raises \<^verbatim>\<open>Exception(f"...")\<close> at three places; \<open>message\<close> keeps the values
  that each f-string interpolates:
  \<^item> \<open>StatusAndBody c t\<close> is \<^verbatim>\<open>f"API request failed with status {response.status_code}: {response.text}"\<close>,
  \<^item> \<open>NoData d\<close> is \<^verbatim>\<open>f"No data returned from API. Response: {data}"\<close>,
  \<^item> \<open>StatusOnly c\<close> is \<^verbatim>\<open>f"API request failed: {response.status_code}"\<close>.
  The other constructors of \<open>py_exception\<close> are the exceptions that the library calls
  and the \<^verbatim>\<open>print\<close> calls of the script raise; all of them are subclasses of
  \<^verbatim>\<open>Exception\<close> in Python.
\<close>

datatype message =
    StatusAndBody int string
  | NoData json
  | StatusOnly int

datatype py_exception =
    Exception message
  | RequestException string
  | JSONDecodeError
  | TypeError
  | KeyError
  | AttributeError
  | PandasError string
  | UnicodeEncodeError

text \<open>The specification calls the three exceptions that the script raises itself
  \<^verbatim>\<open>RemoteRequestError\<close>.\<close>

fun is_RemoteRequestError :: "py_exception \<Rightarrow> bool" where
  "is_RemoteRequestError (Exception m) = True"
| "is_RemoteRequestError e = False"

subsection \<open>HTTP requests and responses\<close>

datatype param = PStr string | PInt int

type_synonym request = "string \<times> (string \<times> param) list"

text \<open>
  A response object of \<^verbatim>\<open>requests\<close>: \<open>resp_text\<close> is \<^verbatim>\<open>response.text\<close> and
  \<open>json_body\<close> is the value of \<^verbatim>\<open>response.json()\<close>, \<open>None\<close> when the body is not
  JSON and the call raises.
\<close>

record response =
  status_code :: int
  resp_text :: string
  json_body :: "json option"

subsection \<open>Tables\<close>

text \<open>
  A DataFrame with the default index: the column labels in order, and one list of cells
  per row, aligned with the columns. A cell is \<open>None\<close> where the row's object had no
  such key (pandas stores NaN there).
\<close>

record dataframe =
  columns :: "string list"
  rows :: "json option list list"

text \<open>A cell that holds a string or nothing. A column of such cells keeps its strings as
  they are.\<close>

fun is_text_cell :: "json option \<Rightarrow> bool" where
  "is_text_cell None = True"
| "is_text_cell (Some (JStr s)) = True"
| "is_text_cell (Some j) = False"

text \<open>\<^verbatim>\<open>df.head(n)\<close>: the first \<open>n\<close> rows.\<close>

definition head :: "nat \<Rightarrow> dataframe \<Rightarrow> dataframe" where
  "head n df = df\<lparr>rows := take n (rows df)\<rparr>"

subsection \<open>Printed lines\<close>

text \<open>
  A printed line is the list of the pieces of its f-string: literal text (a string is a
  list of bytes, text outside ASCII in UTF-8), the decimal digits of a count, the date of
  the day, the text of an exception, a list of column labels, a frame, and the summary
  that \<^verbatim>\<open>describe()\<close> makes of a frame.
\<close>

datatype piece =
    Lit string
  | Len nat
  | Today
  | Exc py_exception
  | Cols "string list"
  | Table dataframe
  | Summary dataframe

definition ascii :: "string \<Rightarrow> bool" where
  "ascii s = list_all (\<lambda>c. of_char c < (128::nat)) s"

text \<open>A piece whose text is ASCII for sure: every string that it shows is ASCII. (Python
  shows the rest of a piece in ASCII: digits, brackets, the fixed text of the library's
  exceptions, and the name of the month, the script setting no locale.)\<close>

fun json_ascii :: "json \<Rightarrow> bool" where
  "json_ascii (JNumber s) = ascii s"
| "json_ascii (JStr s) = ascii s"
| "json_ascii (JArr xs) = list_all json_ascii xs"
| "json_ascii (JObj kvs) = list_all (\<lambda>kv. ascii (fst kv) \<and> json_ascii (snd kv)) kvs"
| "json_ascii j = True"

fun exception_ascii :: "py_exception \<Rightarrow> bool" where
  "exception_ascii (Exception (StatusAndBody c t)) = ascii t"
| "exception_ascii (Exception (NoData d)) = json_ascii d"
| "exception_ascii (Exception (StatusOnly c)) = True"
| "exception_ascii (RequestException s) = ascii s"
| "exception_ascii (PandasError s) = ascii s"
| "exception_ascii e = True"

fun cell_ascii :: "json option \<Rightarrow> bool" where
  "cell_ascii None = True"
| "cell_ascii (Some j) = json_ascii j"

definition frame_ascii :: "dataframe \<Rightarrow> bool" where
  "frame_ascii df = (list_all ascii (columns df) \<and> list_all (list_all cell_ascii) (rows df))"

fun piece_ascii :: "piece \<Rightarrow> bool" where
  "piece_ascii (Lit s) = ascii s"
| "piece_ascii (Len n) = True"
| "piece_ascii Today = True"
| "piece_ascii (Exc e) = exception_ascii e"
| "piece_ascii (Cols cs) = list_all ascii cs"
| "piece_ascii (Table df) = frame_ascii df"
| "piece_ascii (Summary df) = frame_ascii df"

subsection \<open>The environment and the world\<close>

text \<open>
  \<^item> \<open>http_get log req\<close>: what \<^verbatim>\<open>requests.get\<close> does for the request \<open>req\<close> after the
    requests of \<open>log\<close>: it raises (\<open>Inl\<close>, a transport error) or returns a response;
  \<^item> \<open>stdout_rejects line\<close>: whether the console fails to encode \<open>line\<close>, a line that is
    not ASCII for sure;
  \<^item> \<open>frame_other v\<close>: \<^verbatim>\<open>pd.DataFrame(v)\<close> for a value \<open>v\<close> that is not a list of
    JSON objects;
  \<^item> \<open>convert_cell col v\<close>: the value that pandas stores for the cell \<open>v\<close> of a column
    whose cells are \<open>col\<close>, when \<open>col\<close> holds a value that is not a string (pandas infers a
    type for the column and converts its cells: numbers to floats beside a missing value,
    \<^verbatim>\<open>null\<close> to NaN, and so on);
  \<^item> \<open>csv_other df\<close>: the lines that \<^verbatim>\<open>to_csv\<close> writes for a frame holding a value
    that is not a string;
  \<^item> \<open>describe_raises df\<close>: the exception of \<^verbatim>\<open>df.describe()\<close>, if it raises.
\<close>

record env =
  http_get :: "request list \<Rightarrow> request \<Rightarrow> string + response"
  stdout_rejects :: "piece list \<Rightarrow> bool"
  frame_other :: "json \<Rightarrow> string + dataframe"
  convert_cell :: "json option list \<Rightarrow> json option \<Rightarrow> json option"
  csv_other :: "dataframe \<Rightarrow> string list"
  describe_raises :: "dataframe \<Rightarrow> string option"

record world =
  requests :: "request list"
  files :: "string \<Rightarrow> string list option"

definition requests_get ::
  "env \<Rightarrow> string \<Rightarrow> (string \<times> param) list \<Rightarrow> world \<Rightarrow> (py_exception + response) \<times> world" where
  "requests_get env endpoint params w =
     (case http_get env (requests w) (endpoint, params) of
        Inl err \<Rightarrow> Inl (RequestException err)
      | Inr response \<Rightarrow> Inr response,
      w\<lparr>requests := requests w @ [(endpoint, params)]\<rparr>)"

text \<open>
  \<^verbatim>\<open>print(line)\<close>: \<open>None\<close> when the line is printed, the exception otherwise. A line of
  ASCII text is always printed.
\<close>

definition py_print :: "env \<Rightarrow> piece list \<Rightarrow> py_exception option" where
  "py_print env line =
     (if list_all piece_ascii line then None
      else if stdout_rejects env line then Some UnicodeEncodeError
      else None)"

text \<open>Several \<^verbatim>\<open>print\<close> statements in a row: the first exception ends them.\<close>

fun prints :: "env \<Rightarrow> piece list list \<Rightarrow> py_exception option" where
  "prints env [] = None"
| "prints env (line # rest) =
     (case py_print env line of
        Some e \<Rightarrow> Some e
      | None \<Rightarrow> prints env rest)"

subsection \<open>Python's operations on the parsed body\<close>

text \<open>\<^verbatim>\<open>key in data\<close>: a key of a dict, an element of a list, a substring of a string;
  a \<^verbatim>\<open>TypeError\<close> on a number, a boolean and \<^verbatim>\<open>None\<close>.\<close>

fun py_contains :: "string \<Rightarrow> json \<Rightarrow> py_exception + bool" where
  "py_contains k (JObj kvs) = Inr (k \<in> fst ` set kvs)"
| "py_contains k (JArr xs) = Inr (JStr k \<in> set xs)"
| "py_contains k (JStr s) = Inr (sublist k s)"
| "py_contains k j = Inl TypeError"

text \<open>\<^verbatim>\<open>data[key]\<close> with a string key: the value of a dict, a \<^verbatim>\<open>TypeError\<close> on
  anything else.\<close>

fun py_getitem :: "json \<Rightarrow> string \<Rightarrow> py_exception + json" where
  "py_getitem (JObj kvs) k = (case map_of kvs k of None \<Rightarrow> Inl KeyError | Some v \<Rightarrow> Inr v)"
| "py_getitem j k = Inl TypeError"

text \<open>\<^verbatim>\<open>data.get(key, default)\<close>: only a dict has the method.\<close>

fun py_get :: "json \<Rightarrow> string \<Rightarrow> json \<Rightarrow> py_exception + json" where
  "py_get (JObj kvs) k d = Inr (case map_of kvs k of None \<Rightarrow> d | Some v \<Rightarrow> v)"
| "py_get j k d = Inl AttributeError"

subsection \<open>\<^verbatim>\<open>pd.DataFrame\<close> on a list of objects\<close>

text \<open>
  pandas collects the column labels by running over the keys of every object in turn and
  appending each key it has not seen yet; then every object becomes one row. The cell of
  a row under a label is the value of that key in the row's object, missing where the
  object has no such key; a column whose cells are all strings or missing is stored as it
  is, the cells of any other column are converted.
\<close>

definition fast_unique :: "'a list list \<Rightarrow> 'a list" where
  "fast_unique gen =
     fold (\<lambda>buf uniques. fold (\<lambda>val us. if val \<in> set us then us else us @ [val]) buf uniques)
       gen []"

definition stored :: "env \<Rightarrow> json option list \<Rightarrow> json option \<Rightarrow> json option" where
  "stored env col v = (if list_all is_text_cell col then v else convert_cell env col v)"

definition from_records :: "env \<Rightarrow> (string \<times> json) list list \<Rightarrow> dataframe" where
  "from_records env recs =
     (let cols = fast_unique (map (map fst) recs)
      in \<lparr>columns = cols,
          rows = map (\<lambda>r. map (\<lambda>c. stored env (map (\<lambda>r'. map_of r' c) recs) (map_of r c)) cols)
                   recs\<rparr>)"

fun is_object :: "json \<Rightarrow> bool" where
  "is_object (JObj kvs) = True"
| "is_object j = False"

fun items :: "json \<Rightarrow> (string \<times> json) list" where
  "items (JObj kvs) = kvs"
| "items j = []"

definition pandas_result :: "string + dataframe \<Rightarrow> py_exception + dataframe" where
  "pandas_result r = (case r of Inl err \<Rightarrow> Inl (PandasError err) | Inr df \<Rightarrow> Inr df)"

definition DataFrame :: "env \<Rightarrow> json \<Rightarrow> py_exception + dataframe" where
  "DataFrame env v =
     (case v of
        JArr xs \<Rightarrow>
          if list_all is_object xs then Inr (from_records env (map items xs))
          else pandas_result (frame_other env v)
      | _ \<Rightarrow> pandas_result (frame_other env v))"

subsection \<open>The two fetchers\<close>

definition BASE_URL :: string where
  "BASE_URL = ''https://api.fiscaldata.treasury.gov/services/api/fiscal_service''"

definition primary_endpoint :: string where
  "primary_endpoint = BASE_URL @ ''/v2/accounting/od/avg_interest_rates''"

definition primary_params :: "(string \<times> param) list" where
  "primary_params =
     [(''fields'',
       PStr ''record_date,security_desc,avg_interest_rate_amt,src_line_nbr,security_type_desc''),
      (''sort'', PStr ''-record_date''),
      (''page[size]'', PInt 1000),
      (''filter'', PStr ''record_date:gte:2025-01-01'')]"

definition fallback_endpoint :: string where
  "fallback_endpoint = BASE_URL @ ''/v1/accounting/od/securities_sales''"

definition fallback_params :: "(string \<times> param) list" where
  "fallback_params =
     [(''sort'', PStr ''-record_date''),
      (''page[size]'', PInt 100),
      (''filter'', PStr ''record_date:gte:2024-01-01'')]"

definition primary_request :: request where
  "primary_request = (primary_endpoint, primary_params)"

definition fallback_request :: request where
  "fallback_request = (fallback_endpoint, fallback_params)"

text \<open>Lines 37 to 45 of the script: what \<^verbatim>\<open>fetch_treasury_securities\<close> does with the
  response.\<close>

definition primary_result :: "env \<Rightarrow> response \<Rightarrow> py_exception + dataframe" where
  "primary_result env response =
     (if status_code response \<noteq> 200
      then Inl (Exception (StatusAndBody (status_code response) (resp_text response)))
      else case json_body response of
        None \<Rightarrow> Inl JSONDecodeError
      | Some data \<Rightarrow>
          (case py_contains ''data'' data of
             Inl e \<Rightarrow> Inl e
           | Inr present \<Rightarrow>
               if \<not> present then Inl (Exception (NoData data))
               else (case py_getitem data ''data'' of
                       Inl e \<Rightarrow> Inl e
                     | Inr v \<Rightarrow> DataFrame env v)))"

definition fetch_treasury_securities :: "env \<Rightarrow> world \<Rightarrow> (py_exception + dataframe) \<times> world" where
  "fetch_treasury_securities env w =
     (case requests_get env primary_endpoint primary_params w of
        (Inl e, w') \<Rightarrow> (Inl e, w')
      | (Inr response, w') \<Rightarrow> (primary_result env response, w'))"

text \<open>Lines 71 to 75 of the script: what \<^verbatim>\<open>fetch_securities_from_treasurydirect\<close> does
  with the response.\<close>

definition fallback_result :: "env \<Rightarrow> response \<Rightarrow> py_exception + dataframe" where
  "fallback_result env response =
     (if status_code response \<noteq> 200
      then Inl (Exception (StatusOnly (status_code response)))
      else case json_body response of
        None \<Rightarrow> Inl JSONDecodeError
      | Some data \<Rightarrow>
          (case py_get data ''data'' (JArr []) of
             Inl e \<Rightarrow> Inl e
           | Inr v \<Rightarrow> DataFrame env v))"

definition fetch_securities_from_treasurydirect ::
  "env \<Rightarrow> world \<Rightarrow> (py_exception + dataframe) \<times> world" where
  "fetch_securities_from_treasurydirect env w =
     (case requests_get env fallback_endpoint fallback_params w of
        (Inl e, w') \<Rightarrow> (Inl e, w')
      | (Inr response, w') \<Rightarrow> (fallback_result env response, w'))"

subsection \<open>The assembler\<close>

definition check_mark :: string where
  "check_mark = [CHR 0xE2, CHR 0x9C, CHR 0x93]"

definition ballot_x :: string where
  "ballot_x = [CHR 0xE2, CHR 0x9C, CHR 0x97]"

definition newline :: string where
  "newline = [CHR 0x0A]"

text \<open>
  The handler of the assembler, lines 88 to 92: two prints, the call of the fallback
  fetcher, one print. An exception of any of the four leaves the handler and the function.
\<close>

definition try_alternative ::
  "env \<Rightarrow> py_exception \<Rightarrow> world \<Rightarrow> (py_exception + dataframe) \<times> world" where
  "try_alternative env e w =
     (case py_print env [Lit ''Primary API failed: '', Exc e] of
        Some raised \<Rightarrow> (Inl raised, w)
      | None \<Rightarrow>
          (case py_print env [Lit ''Trying alternative endpoint...''] of
             Some raised \<Rightarrow> (Inl raised, w)
           | None \<Rightarrow>
               (case fetch_securities_from_treasurydirect env w of
                  (Inl raised, w') \<Rightarrow> (Inl raised, w')
                | (Inr df, w') \<Rightarrow>
                    (case py_print env
                            [Lit (check_mark @ '' Retrieved ''), Len (length (rows df)),
                             Lit '' records from alternative source''] of
                       Some raised \<Rightarrow> (Inl raised, w')
                     | None \<Rightarrow> (Inr df, w')))))"

text \<open>
  Lines 85 to 94. The \<^verbatim>\<open>try\<close> block holds the call of the primary fetcher and the print
  of line 87: the handler runs on an exception of either.
\<close>

definition get_treasury_securities_portfolio ::
  "env \<Rightarrow> world \<Rightarrow> (py_exception + dataframe) \<times> world" where
  "get_treasury_securities_portfolio env w =
     (case fetch_treasury_securities env w of
        (Inl e, w') \<Rightarrow> try_alternative env e w'
      | (Inr df, w') \<Rightarrow>
          (case py_print env
                  [Lit (check_mark @ '' Retrieved ''), Len (length (rows df)),
                   Lit '' records from Treasury API''] of
             Some e \<Rightarrow> try_alternative env e w'
           | None \<Rightarrow> (Inr df, w')))"

subsection \<open>Writing the CSV file\<close>

text \<open>
  \<^verbatim>\<open>to_csv(output_file, index=False)\<close> hands the column labels, then every row, to
  Python's \<^verbatim>\<open>csv\<close> writer with minimal quoting: a field is written as it is unless it
  holds a comma, a double quote or a line break; then it is put between double quotes,
  every double quote of it doubled. A record that is one empty field is written as two
  double quotes. A missing value is written as the empty field. The file is a list of
  records as written, without their line terminators.
\<close>

definition csv_special :: "char \<Rightarrow> bool" where
  "csv_special c = (c = CHR '','' \<or> c = CHR 0x22 \<or> c = CHR 0x0A \<or> c = CHR 0x0D)"

definition csv_field :: "string \<Rightarrow> string" where
  "csv_field s =
     (if list_ex csv_special s
      then [CHR 0x22] @ concat (map (\<lambda>c. if c = CHR 0x22 then [c, c] else [c]) s) @ [CHR 0x22]
      else s)"

fun join :: "string \<Rightarrow> string list \<Rightarrow> string" where
  "join sep [] = []"
| "join sep [s] = s"
| "join sep (s # t # ss) = s @ sep @ join sep (t # ss)"

definition writerow :: "string list \<Rightarrow> string" where
  "writerow record =
     (if record = [[]] then [CHR 0x22, CHR 0x22] else join '','' (map csv_field record))"

fun cell_text :: "json option \<Rightarrow> string" where
  "cell_text (Some (JStr s)) = s"
| "cell_text c = []"

definition to_csv :: "env \<Rightarrow> dataframe \<Rightarrow> string list" where
  "to_csv env df =
     (if list_all (list_all is_text_cell) (rows df)
      then writerow (columns df) # map (\<lambda>r. writerow (map cell_text r)) (rows df)
      else csv_other env df)"

subsection \<open>The top-level driver\<close>

definition output_file :: string where
  "output_file = ''treasury_securities_raw_data.csv''"

definition rule80 :: string where
  "rule80 = replicate 80 (CHR ''='')"

text \<open>Lines 100 to 106, printed before the \<^verbatim>\<open>try\<close> block.\<close>

definition banner :: "piece list list" where
  "banner =
     [[Lit rule80],
      [Lit ''FETCHING 30 US TREASURY SECURITIES FROM OFFICIAL GOVERNMENT SOURCES''],
      [Lit rule80],
      [Lit (newline @ ''Data Source: US Department of Treasury - Fiscal Data API'')],
      [Lit ''API Base URL: '', Lit BASE_URL],
      [Lit ''Date: '', Today],
      []]"

text \<open>Lines 136 to 138, printed after the \<^verbatim>\<open>try\<close> statement.\<close>

definition footer :: "piece list list" where
  "footer = [[Lit (newline @ rule80)], [Lit ''SCRIPT COMPLETE''], [Lit rule80]]"

text \<open>
  The \<^verbatim>\<open>try\<close> block of the driver, lines 110 to 127: the assembler, five prints, the
  CSV file, four prints, \<^verbatim>\<open>describe()\<close> and the print of its summary.
\<close>

definition driver_try :: "env \<Rightarrow> world \<Rightarrow> (py_exception + unit) \<times> world" where
  "driver_try env w =
     (case get_treasury_securities_portfolio env w of
        (Inl e, w1) \<Rightarrow> (Inl e, w1)
      | (Inr securities_df, w1) \<Rightarrow>
          (case prints env
                  [[Lit (newline @ ''Data Retrieved Successfully!'')],
                   [Lit ''Total records: '', Len (length (rows securities_df))],
                   [Lit (newline @ ''Columns available: ''), Cols (columns securities_df)],
                   [Lit (newline @ ''First few records:'')],
                   [Table (head 10 securities_df)]] of
             Some e \<Rightarrow> (Inl e, w1)
           | None \<Rightarrow>
               (let w2 = w1\<lparr>files := (files w1)(output_file \<mapsto> to_csv env securities_df)\<rparr>
                in case prints env
                          [[Lit (newline @ check_mark @ '' Saved raw data to: '' @ output_file)],
                           [Lit (newline @ rule80)],
                           [Lit ''DATA SUMMARY''],
                           [Lit rule80]] of
                     Some e \<Rightarrow> (Inl e, w2)
                   | None \<Rightarrow>
                       (case describe_raises env securities_df of
                          Some err \<Rightarrow> (Inl (PandasError err), w2)
                        | None \<Rightarrow>
                            (case py_print env [Summary securities_df] of
                               Some e \<Rightarrow> (Inl e, w2)
                             | None \<Rightarrow> (Inr (), w2))))))"

text \<open>
  The script run as a program: the banner, the \<^verbatim>\<open>try\<close> block, and either the footer or
  the handler of lines 129 to 133, which prints three lines and raises the exception
  again. An exception of a print of the handler leaves the run in its place.
\<close>

definition main :: "env \<Rightarrow> world \<Rightarrow> (py_exception + unit) \<times> world" where
  "main env w =
     (case prints env banner of
        Some e \<Rightarrow> (Inl e, w)
      | None \<Rightarrow>
          (case driver_try env w of
             (Inr u, w') \<Rightarrow>
               (case prints env footer of
                  Some e \<Rightarrow> (Inl e, w')
                | None \<Rightarrow> (Inr (), w'))
           | (Inl e, w') \<Rightarrow>
               (case prints env
                       [[Lit (newline @ ballot_x @ '' ERROR: ''), Exc e],
                        [Lit (newline @ ''The API may have changed or may be temporarily unavailable.'')],
                        [Lit (''Please verify the API endpoint at: '' @
                              ''https://fiscaldata.treasury.gov/api-documentation/'')]] of
                  Some raised \<Rightarrow> (Inl raised, w')
                | None \<Rightarrow> (Inl e, w'))))"

subsection \<open>A stub server and the example responses of the specification\<close>

text \<open>
  \<open>stub_env p f d\<close> answers every GET on the primary endpoint with \<open>p\<close> and every GET on the
  fallback endpoint with \<open>f\<close>; \<^verbatim>\<open>describe()\<close> raises what \<open>d\<close> says; the console encodes
  every line, as a UTF-8 console does. The values that the model does not compute are
  fixed arbitrarily.
\<close>

definition stub_env :: "string + response \<Rightarrow> string + response \<Rightarrow> string option \<Rightarrow> env" where
  "stub_env p f d =
     \<lparr>http_get = (\<lambda>log req. if fst req = primary_endpoint then p
                             else if fst req = fallback_endpoint then f
                             else Inl ''ConnectionError''),
      stdout_rejects = (\<lambda>line. False),
      frame_other = (\<lambda>v. Inl ''ValueError''),
      convert_cell = (\<lambda>col v. v),
      csv_other = (\<lambda>df. []),
      describe_raises = (\<lambda>df. d)\<rparr>"

text \<open>The same with a console whose encoding is ASCII: it cannot encode a line that
  holds a character outside ASCII.\<close>

definition ascii_console :: "env \<Rightarrow> env" where
  "ascii_console env = env\<lparr>stdout_rejects := (\<lambda>line. True)\<rparr>"

definition fresh_world :: world where
  "fresh_world = \<lparr>requests = [], files = (\<lambda>name. None)\<rparr>"

definition ok_response :: "json \<Rightarrow> response" where
  "ok_response body = \<lparr>status_code = 200, resp_text = [], json_body = Some body\<rparr>"

definition not_found :: response where
  "not_found = \<lparr>status_code = 404, resp_text = ''Not Found'', json_body = None\<rparr>"

definition unavailable :: response where
  "unavailable =
     \<lparr>status_code = 503, resp_text = ''Service Unavailable'',
      json_body = Some (JObj [(''data'', JArr [])])\<rparr>"

text \<open>The body \<^verbatim>\<open>{"foo": []}\<close>.\<close>

definition foo_body :: json where
  "foo_body = JObj [(''foo'', JArr [])]"

text \<open>The body \<^verbatim>\<open>{"data": [{"record_date": "2025-01-01", "avg_interest_rate_amt": "4.5"}]}\<close>.\<close>

definition rate_records :: "(string \<times> json) list list" where
  "rate_records = [[(''record_date'', JStr ''2025-01-01''), (''avg_interest_rate_amt'', JStr ''4.5'')]]"

definition rate_body :: json where
  "rate_body = JObj [(''data'', JArr (map JObj rate_records))]"

text \<open>A body of two sales records with different keys, and a key outside \<^verbatim>\<open>data\<close>.\<close>

definition sales_records :: "(string \<times> json) list list" where
  "sales_records =
     [[(''record_date'', JStr ''2024-03-01''), (''security_desc'', JStr ''Bills'')],
      [(''security_desc'', JStr ''Notes''), (''amount'', JStr ''12,5'')]]"

definition sales_body :: json where
  "sales_body = JObj [(''meta'', JObj [(''count'', JNumber ''2'')]), (''data'', JArr (map JObj sales_records))]"

text \<open>A body \<^verbatim>\<open>{"foo": [s]}\<close> where the string \<open>s\<close> is the letter e with an acute
  accent, two bytes in UTF-8.\<close>

definition accent_body :: json where
  "accent_body = JObj [(''foo'', JArr [JStr [CHR 0xC3, CHR 0xA9]])]"

text \<open>What the specification means by a body that has a \<^verbatim>\<open>data\<close> key: a JSON object
  with that key.\<close>

fun has_data_key :: "json \<Rightarrow> bool" where
  "has_data_key (JObj kvs) = (''data'' \<in> fst ` set kvs)"
| "has_data_key j = False"

section \<open>Properties\<close>

subsection \<open>One GET per fetcher\<close>

lemma fetch_primary_response:
  "http_get env (requests w) primary_request = Inr response \<Longrightarrow>
   fetch_treasury_securities env w =
     (primary_result env response, w\<lparr>requests := requests w @ [primary_request]\<rparr>)"
  by (simp add: fetch_treasury_securities_def requests_get_def primary_request_def)

lemma fetch_primary_transport:
  "http_get env (requests w) primary_request = Inl err \<Longrightarrow>
   fetch_treasury_securities env w =
     (Inl (RequestException err), w\<lparr>requests := requests w @ [primary_request]\<rparr>)"
  by (simp add: fetch_treasury_securities_def requests_get_def primary_request_def)

lemma fetch_primary_world:
  "snd (fetch_treasury_securities env w) = w\<lparr>requests := requests w @ [primary_request]\<rparr>"
  by (simp add: fetch_treasury_securities_def requests_get_def primary_request_def
      split: sum.splits)

lemma fetch_fallback_response:
  "http_get env (requests w) fallback_request = Inr response \<Longrightarrow>
   fetch_securities_from_treasurydirect env w =
     (fallback_result env response, w\<lparr>requests := requests w @ [fallback_request]\<rparr>)"
  by (simp add: fetch_securities_from_treasurydirect_def requests_get_def fallback_request_def)

lemma fetch_fallback_transport:
  "http_get env (requests w) fallback_request = Inl err \<Longrightarrow>
   fetch_securities_from_treasurydirect env w =
     (Inl (RequestException err), w\<lparr>requests := requests w @ [fallback_request]\<rparr>)"
  by (simp add: fetch_securities_from_treasurydirect_def requests_get_def fallback_request_def)

lemma fetch_fallback_world:
  "snd (fetch_securities_from_treasurydirect env w) =
     w\<lparr>requests := requests w @ [fallback_request]\<rparr>"
  by (simp add: fetch_securities_from_treasurydirect_def requests_get_def fallback_request_def
      split: sum.splits)

lemma endpoints_differ: "primary_endpoint \<noteq> fallback_endpoint"
  by (simp add: primary_endpoint_def fallback_endpoint_def)

lemma requests_differ: "primary_request \<noteq> fallback_request"
  by (simp add: primary_request_def fallback_request_def endpoints_differ)

subsection \<open>Printing\<close>

lemma py_print_ascii: "list_all piece_ascii line \<Longrightarrow> py_print env line = None"
  by (simp add: py_print_def)

lemma py_print_raises: "py_print env line = Some e \<Longrightarrow> e = UnicodeEncodeError"
  by (simp add: py_print_def split: if_splits)

lemma prints_raises: "prints env ls = Some e \<Longrightarrow> e = UnicodeEncodeError"
  by (induction ls) (auto split: option.splits dest: py_print_raises)

lemma prints_ascii: "list_all (list_all piece_ascii) ls \<Longrightarrow> prints env ls = None"
  by (induction ls) (simp_all add: py_print_ascii)

lemma ascii_rule80: "ascii rule80"
  by (simp add: ascii_def rule80_def list_all_iff)

lemma ascii_append: "ascii (s @ t) = (ascii s \<and> ascii t)"
  by (simp add: ascii_def)

lemma ascii_newline: "ascii newline"
  by (simp add: ascii_def newline_def)

lemma ascii_BASE_URL: "ascii BASE_URL"
  by (simp add: ascii_def BASE_URL_def)

lemma prints_banner: "prints env banner = None"
proof -
  have "list_all (list_all piece_ascii) banner"
    unfolding banner_def
    by (simp add: ascii_append ascii_rule80 ascii_newline ascii_BASE_URL) (simp add: ascii_def)
  then show ?thesis by (rule prints_ascii)
qed

lemma prints_footer: "prints env footer = None"
proof -
  have "list_all (list_all piece_ascii) footer"
    unfolding footer_def
    by (simp add: ascii_append ascii_rule80 ascii_newline) (simp add: ascii_def)
  then show ?thesis by (rule prints_ascii)
qed

lemma print_trying: "py_print env [Lit ''Trying alternative endpoint...''] = None"
  by (rule py_print_ascii) (simp add: ascii_def)

subsection \<open>The handler of the assembler\<close>

lemma try_alternative_not_printed:
  "py_print env [Lit ''Primary API failed: '', Exc e] = Some raised \<Longrightarrow>
   try_alternative env e w = (Inl raised, w)"
  by (simp add: try_alternative_def)

lemma try_alternative_failed:
  "py_print env [Lit ''Primary API failed: '', Exc e] = None \<Longrightarrow>
   fetch_securities_from_treasurydirect env w = (Inl e2, w2) \<Longrightarrow>
   try_alternative env e w = (Inl e2, w2)"
  by (simp add: try_alternative_def print_trying)

lemma try_alternative_world:
  "snd (try_alternative env e w) = w \<or>
   snd (try_alternative env e w) = w\<lparr>requests := requests w @ [fallback_request]\<rparr>"
proof (cases "fetch_securities_from_treasurydirect env w")
  case (Pair r w')
  then have "w' = w\<lparr>requests := requests w @ [fallback_request]\<rparr>"
    using fetch_fallback_world [of env w] by simp
  then show ?thesis
    using Pair by (simp add: try_alternative_def split: option.splits sum.splits)
qed

lemma portfolio_primary_failed:
  "fetch_treasury_securities env w = (Inl e, w1) \<Longrightarrow>
   get_treasury_securities_portfolio env w = try_alternative env e w1"
  by (simp add: get_treasury_securities_portfolio_def)

lemma portfolio_primary_ok:
  "fetch_treasury_securities env w = (Inr df, w1) \<Longrightarrow>
   py_print env [Lit (check_mark @ '' Retrieved ''), Len (length (rows df)),
                 Lit '' records from Treasury API''] = None \<Longrightarrow>
   get_treasury_securities_portfolio env w = (Inr df, w1)"
  by (simp add: get_treasury_securities_portfolio_def)

text \<open>
  On a console that encodes every line the assembler returns the frame of the primary
  fetcher after the one GET on the primary endpoint, and, when the primary fetcher raises,
  what the fallback fetcher returns after one GET on each endpoint.
\<close>

lemma portfolio_policy_printed:
  assumes "\<And>line. py_print env line = None"
  shows "(\<forall>df w1. fetch_treasury_securities env w = (Inr df, w1) \<longrightarrow>
            get_treasury_securities_portfolio env w = (Inr df, w1) \<and>
            requests w1 = requests w @ [primary_request]) \<and>
         (\<forall>e w1. fetch_treasury_securities env w = (Inl e, w1) \<longrightarrow>
            get_treasury_securities_portfolio env w = fetch_securities_from_treasurydirect env w1 \<and>
            requests (snd (get_treasury_securities_portfolio env w)) =
              requests w @ [primary_request, fallback_request])"
proof (intro conjI allI impI)
  fix df w1
  assume ok: "fetch_treasury_securities env w = (Inr df, w1)"
  show "get_treasury_securities_portfolio env w = (Inr df, w1)"
    using ok by (rule portfolio_primary_ok) (rule assms)
  have "w1 = snd (fetch_treasury_securities env w)"
    using ok by simp
  then show "requests w1 = requests w @ [primary_request]"
    by (simp add: fetch_primary_world)
next
  fix e w1
  assume failed: "fetch_treasury_securities env w = (Inl e, w1)"
  have "try_alternative env e w1 = fetch_securities_from_treasurydirect env w1"
    by (simp add: try_alternative_def assms split: prod.splits sum.splits)
  then show fb: "get_treasury_securities_portfolio env w = fetch_securities_from_treasurydirect env w1"
    using portfolio_primary_failed [OF failed] by simp
  have "w1 = snd (fetch_treasury_securities env w)"
    using failed by simp
  then have "requests w1 = requests w @ [primary_request]"
    by (simp add: fetch_primary_world)
  then show "requests (snd (get_treasury_securities_portfolio env w)) =
      requests w @ [primary_request, fallback_request]"
    by (simp add: fb fetch_fallback_world)
qed

lemma portfolio_files: "files (snd (get_treasury_securities_portfolio env w)) = files w"
proof (cases "fetch_treasury_securities env w")
  case (Pair r w1)
  have w1: "w1 = w\<lparr>requests := requests w @ [primary_request]\<rparr>"
    using fetch_primary_world [of env w] Pair by simp
  have alt: "files (snd (try_alternative env e w1)) = files w" for e
    using try_alternative_world [of env e w1] w1 by auto
  show ?thesis
    using Pair w1 alt
    by (simp add: get_treasury_securities_portfolio_def split: sum.splits option.splits)
qed

subsection \<open>The frame of a list of objects\<close>

lemma DataFrame_records: "DataFrame env (JArr (map JObj recs)) = Inr (from_records env recs)"
proof -
  have "list_all is_object (map JObj recs)"
    by (induction recs) simp_all
  moreover have "map items (map JObj recs) = recs"
    by (induction recs) simp_all
  ultimately show ?thesis
    by (simp add: DataFrame_def)
qed

lemma DataFrame_empty: "DataFrame env (JArr []) = Inr \<lparr>columns = [], rows = []\<rparr>"
  by (simp add: DataFrame_def from_records_def fast_unique_def)

lemma DataFrame_not_raised: "DataFrame env v \<noteq> Inl (Exception m)"
  by (simp add: DataFrame_def pandas_result_def split: json.splits sum.splits)

lemma py_contains_raises: "py_contains k j = Inl e \<Longrightarrow> e = TypeError"
  by (cases j) auto

lemma py_getitem_raises: "py_getitem j k = Inl e \<Longrightarrow> e = KeyError \<or> e = TypeError"
  by (cases j) (auto split: option.splits)

lemma map_of_key: "map_of kvs k = Some v \<Longrightarrow> k \<in> fst ` set kvs"
  by (metis map_of_eq_None_iff option.distinct(1))

lemma primary_result_records:
  assumes "status_code response = 200"
    and "json_body response = Some (JObj body)"
    and "map_of body ''data'' = Some (JArr (map JObj recs))"
  shows "primary_result env response = Inr (from_records env recs)"
  using assms by (simp add: primary_result_def map_of_key DataFrame_records)

lemma fallback_result_records:
  assumes "status_code response = 200"
    and "json_body response = Some (JObj body)"
    and "map_of body ''data'' = Some (JArr (map JObj recs))"
  shows "fallback_result env response = Inr (from_records env recs)"
  using assms by (simp add: fallback_result_def DataFrame_records)

subsection \<open>The column labels\<close>

lemma unique_step_set:
  "set (fold (\<lambda>val us. if val \<in> set us then us else us @ [val]) buf acc) = set acc \<union> set buf"
  by (induction buf arbitrary: acc) auto

lemma unique_step_distinct:
  "distinct acc \<Longrightarrow> distinct (fold (\<lambda>val us. if val \<in> set us then us else us @ [val]) buf acc)"
  by (induction buf arbitrary: acc) auto

lemma unique_gen_set:
  "set (fold (\<lambda>buf uniques. fold (\<lambda>val us. if val \<in> set us then us else us @ [val]) buf uniques) gen acc)
     = set acc \<union> \<Union> (set ` set gen)"
  by (induction gen arbitrary: acc) (auto simp: unique_step_set)

lemma unique_gen_distinct:
  "distinct acc \<Longrightarrow>
   distinct (fold (\<lambda>buf uniques. fold (\<lambda>val us. if val \<in> set us then us else us @ [val]) buf uniques) gen acc)"
  by (induction gen arbitrary: acc) (auto simp: unique_step_distinct)

lemma set_fast_unique: "set (fast_unique gen) = \<Union> (set ` set gen)"
  by (simp add: fast_unique_def unique_gen_set)

lemma distinct_fast_unique: "distinct (fast_unique gen)"
  by (simp add: fast_unique_def unique_gen_distinct)

lemma unique_gen_concat:
  "fold (\<lambda>buf uniques. fold (\<lambda>val us. if val \<in> set us then us else us @ [val]) buf uniques) gen acc
     = fold (\<lambda>val us. if val \<in> set us then us else us @ [val]) (concat gen) acc"
  by (induction gen arbitrary: acc) simp_all

lemma fast_unique_concat:
  "fast_unique gen = fold (\<lambda>val us. if val \<in> set us then us else us @ [val]) (concat gen) []"
  by (simp add: fast_unique_def unique_gen_concat)

lemma unique_step_prefix:
  "\<exists>zs. fold (\<lambda>val us. if val \<in> set us then us else us @ [val]) xs acc = acc @ zs"
proof (induction xs arbitrary: acc)
  case Nil
  show ?case by simp
next
  case (Cons x xs)
  show ?case
  proof (cases "x \<in> set acc")
    case True
    then show ?thesis using Cons.IH [of acc] by simp
  next
    case False
    obtain zs where "fold (\<lambda>val us. if val \<in> set us then us else us @ [val]) xs (acc @ [x])
        = (acc @ [x]) @ zs"
      using Cons.IH [of "acc @ [x]"] by blast
    then show ?thesis using False by simp
  qed
qed

lemma unique_step_order:
  assumes "fold (\<lambda>val us. if val \<in> set us then us else us @ [val]) xs acc = ps @ a # qs"
    and "b \<in> set qs"
    and "distinct acc"
    and "a \<notin> set acc"
  shows "b \<notin> set acc \<and> (\<exists>us vs. xs = us @ a # vs \<and> a \<notin> set us \<and> b \<notin> set us)"
  using assms
proof (induction xs arbitrary: acc)
  case Nil
  then show ?case by auto
next
  case (Cons x xs)
  let ?step = "\<lambda>val us. if val \<in> set us then us else us @ [val]"
  show ?case
  proof (cases "x \<in> set acc")
    case True
    then have run: "fold ?step xs acc = ps @ a # qs"
      using Cons.prems(1) by simp
    from Cons.IH [OF run Cons.prems(2) Cons.prems(3) Cons.prems(4)]
    obtain us vs where b: "b \<notin> set acc" and split: "xs = us @ a # vs"
      and fresh: "a \<notin> set us" "b \<notin> set us"
      by blast
    have "x \<noteq> a" "x \<noteq> b"
      using True Cons.prems(4) b by auto
    then have "x # xs = (x # us) @ a # vs \<and> a \<notin> set (x # us) \<and> b \<notin> set (x # us)"
      using split fresh by auto
    then show ?thesis using b by blast
  next
    case False
    then have run: "fold ?step xs (acc @ [x]) = ps @ a # qs"
      using Cons.prems(1) by simp
    have dist: "distinct (acc @ [x])"
      using False Cons.prems(3) by simp
    show ?thesis
    proof (cases "x = a")
      case True
      obtain zs where zs: "fold ?step xs (acc @ [x]) = (acc @ [x]) @ zs"
        using unique_step_prefix [of xs "acc @ [x]"] by blast
      have whole: "distinct (ps @ a # qs)"
        using unique_step_distinct [OF dist, of xs] run by simp
      have eq: "ps @ a # qs = acc @ a # zs"
        using zs run True by simp
      have "a \<notin> set ps" "a \<notin> set qs"
        using whole by auto
      then have "ps = acc"
        using eq by (simp add: append_Cons_eq_iff)
      then have "b \<notin> set acc"
        using whole Cons.prems(2) by auto
      moreover have "x # xs = [] @ a # xs \<and> a \<notin> set [] \<and> b \<notin> set []"
        using True by simp
      ultimately show ?thesis by blast
    next
      case neq: False
      then have notin: "a \<notin> set (acc @ [x])"
        using Cons.prems(4) by auto
      from Cons.IH [OF run Cons.prems(2) dist notin]
      obtain us vs where b: "b \<notin> set (acc @ [x])" and split: "xs = us @ a # vs"
        and fresh: "a \<notin> set us" "b \<notin> set us"
        by blast
      have "x # xs = (x # us) @ a # vs \<and> a \<notin> set (x # us) \<and> b \<notin> set (x # us)"
        using split fresh neq b by auto
      moreover have "b \<notin> set acc"
        using b by simp
      ultimately show ?thesis by blast
    qed
  qed
qed

lemma fast_unique_order:
  assumes "fast_unique gen = ps @ a # qs" and "b \<in> set qs"
  shows "\<exists>us vs. concat gen = us @ a # vs \<and> a \<notin> set us \<and> b \<notin> set us"
  using unique_step_order [of "concat gen" "[]" ps a qs b] assms
  by (simp add: fast_unique_concat)

lemma from_records_shape:
  "length (rows (from_records env recs)) = length recs \<and>
   distinct (columns (from_records env recs)) \<and>
   set (columns (from_records env recs)) = (\<Union>r\<in>set recs. fst ` set r) \<and>
   (\<forall>row\<in>set (rows (from_records env recs)). length row = length (columns (from_records env recs)))"
  by (auto simp: from_records_def Let_def distinct_fast_unique set_fast_unique)

lemma text_cells_of_record:
  assumes "\<forall>v\<in>snd ` set r. \<exists>s. v = JStr s"
  shows "is_text_cell (map_of r c)"
proof (cases "map_of r c")
  case None
  then show ?thesis by simp
next
  case (Some v)
  then have "(c, v) \<in> set r" by (rule map_of_SomeD)
  then have "v \<in> snd ` set r" by force
  then obtain s where "v = JStr s" using assms by blast
  then show ?thesis using Some by simp
qed

lemma stored_text:
  assumes "\<forall>r\<in>set recs. \<forall>v\<in>snd ` set r. \<exists>s. v = JStr s"
  shows "stored env (map (\<lambda>r. map_of r c) recs) v = v"
proof -
  have "list_all is_text_cell (map (\<lambda>r. map_of r c) recs)"
    using assms by (simp add: list_all_iff text_cells_of_record)
  then show ?thesis by (simp add: stored_def)
qed

lemma from_records_text:
  assumes "\<forall>r\<in>set recs. \<forall>v\<in>snd ` set r. \<exists>s. v = JStr s"
  shows "rows (from_records env recs) =
     map (\<lambda>r. map (map_of r) (columns (from_records env recs))) recs"
  using assms by (simp add: from_records_def Let_def stored_text)

subsection \<open>The fetchers on a response\<close>

lemma primary_result_non_200:
  "status_code response \<noteq> 200 \<Longrightarrow>
   primary_result env response =
     Inl (Exception (StatusAndBody (status_code response) (resp_text response)))"
  by (simp add: primary_result_def)

lemma primary_result_no_data:
  "status_code response = 200 \<Longrightarrow> json_body response = Some data \<Longrightarrow>
   py_contains ''data'' data = Inr False \<Longrightarrow>
   primary_result env response = Inl (Exception (NoData data))"
  by (simp add: primary_result_def)

lemma primary_result_raised:
  assumes "primary_result env response = Inl (Exception m)"
  shows "status_code response \<noteq> 200 \<and> m = StatusAndBody (status_code response) (resp_text response) \<or>
         status_code response = 200 \<and>
           (\<exists>data. json_body response = Some data \<and> py_contains ''data'' data = Inr False \<and>
              m = NoData data)"
proof (cases "status_code response = 200")
  case False
  then show ?thesis using assms by (simp add: primary_result_def)
next
  case ok: True
  show ?thesis
  proof (cases "json_body response")
    case None
    then show ?thesis using assms ok by (simp add: primary_result_def)
  next
    case (Some data)
    show ?thesis
    proof (cases "py_contains ''data'' data")
      case (Inl e)
      then have "e = TypeError" by (rule py_contains_raises)
      then show ?thesis using assms ok Some Inl by (simp add: primary_result_def)
    next
      case (Inr present)
      show ?thesis
      proof (cases present)
        case False
        then show ?thesis using assms ok Some Inr by (simp add: primary_result_def)
      next
        case True
        show ?thesis
        proof (cases "py_getitem data ''data''")
          case (Inl e)
          then have "e = KeyError \<or> e = TypeError" by (rule py_getitem_raises)
          then show ?thesis using assms ok Some Inr True Inl
            by (auto simp: primary_result_def)
        next
          case v: (Inr v)
          then show ?thesis using assms ok Some Inr True DataFrame_not_raised [of env v m]
            by (simp add: primary_result_def)
        qed
      qed
    qed
  qed
qed

lemma primary_result_lacking:
  assumes "status_code response = 200" and "json_body response = Some data"
    and "\<not> has_data_key data"
  shows "\<exists>e. primary_result env response = Inl e"
proof (cases data)
  case (JObj kvs)
  then show ?thesis using assms by (simp add: primary_result_def)
next
  case (JArr xs)
  then show ?thesis using assms by (simp add: primary_result_def)
next
  case (JStr s)
  then show ?thesis using assms by (simp add: primary_result_def)
qed (use assms in \<open>simp_all add: primary_result_def\<close>)

lemma fetch_primary_files: "files (snd (fetch_treasury_securities env w)) = files w"
  by (simp add: fetch_primary_world)

lemma fetch_fallback_files: "files (snd (fetch_securities_from_treasurydirect env w)) = files w"
  by (simp add: fetch_fallback_world)

subsection \<open>The stub server and the consoles\<close>

lemma stub_primary: "http_get (stub_env p f d) log primary_request = p"
  by (simp add: stub_env_def primary_request_def)

lemma stub_fallback: "http_get (stub_env p f d) log fallback_request = f"
  by (simp add: stub_env_def fallback_request_def endpoints_differ [symmetric])

lemma stub_describe: "describe_raises (stub_env p f d) df = d"
  by (simp add: stub_env_def)

lemma stub_print: "py_print (stub_env p f d) line = None"
  by (simp add: py_print_def stub_env_def)

lemma stub_prints: "prints (stub_env p f d) ls = None"
  by (induction ls) (simp_all add: stub_print)

lemma console_http_get: "http_get (ascii_console env) = http_get env"
  by (simp add: ascii_console_def)

lemma console_print:
  "py_print (ascii_console env) line =
     (if list_all piece_ascii line then None else Some UnicodeEncodeError)"
  by (simp add: py_print_def ascii_console_def)

lemma check_mark_not_ascii: "\<not> ascii (check_mark @ s)"
  by (simp add: ascii_def check_mark_def)

lemma ballot_x_not_ascii: "\<not> ascii (newline @ ballot_x @ s)"
  by (simp add: ascii_def ballot_x_def newline_def)

lemma console_print_retrieved:
  "py_print (ascii_console env) [Lit (check_mark @ s), Len n, Lit t] = Some UnicodeEncodeError"
  by (simp add: console_print check_mark_not_ascii)

lemma fresh_requests: "requests fresh_world = []"
  by (simp add: fresh_world_def)

lemma fresh_files: "files fresh_world name = None"
  by (simp add: fresh_world_def)

lemma rate_fetch:
  assumes "http_get env [] primary_request = Inr (ok_response rate_body)"
  shows "fetch_treasury_securities env fresh_world =
     (Inr (from_records env rate_records), fresh_world\<lparr>requests := [primary_request]\<rparr>)"
proof -
  have "primary_result env (ok_response rate_body) = Inr (from_records env rate_records)"
    by (rule primary_result_records [where body = "[(''data'', JArr (map JObj rate_records))]"])
      (simp_all add: ok_response_def rate_body_def)
  then show ?thesis
    using fetch_primary_response [of env fresh_world "ok_response rate_body"] assms
    by (simp add: fresh_requests)
qed

lemma sales_fetch:
  assumes "http_get env [primary_request] fallback_request = Inr (ok_response sales_body)"
  shows "fetch_securities_from_treasurydirect env (fresh_world\<lparr>requests := [primary_request]\<rparr>) =
     (Inr (from_records env sales_records),
      fresh_world\<lparr>requests := [primary_request, fallback_request]\<rparr>)"
proof -
  have "fallback_result env (ok_response sales_body) = Inr (from_records env sales_records)"
    by (rule fallback_result_records [where body = "[(''meta'', JObj [(''count'', JNumber ''2'')]),
          (''data'', JArr (map JObj sales_records))]"])
      (simp_all add: ok_response_def sales_body_def)
  then show ?thesis
    using fetch_fallback_response [of env "fresh_world\<lparr>requests := [primary_request]\<rparr>"
        "ok_response sales_body"] assms
    by simp
qed

lemma no_data_fetch:
  assumes "http_get env [] primary_request = Inr (ok_response (JObj kvs))"
    and "''data'' \<notin> fst ` set kvs"
  shows "fetch_treasury_securities env fresh_world =
     (Inl (Exception (NoData (JObj kvs))), fresh_world\<lparr>requests := [primary_request]\<rparr>)"
proof -
  have "primary_result env (ok_response (JObj kvs)) = Inl (Exception (NoData (JObj kvs)))"
    using assms(2) by (simp add: primary_result_def ok_response_def)
  then show ?thesis
    using fetch_primary_response [of env fresh_world "ok_response (JObj kvs)"] assms(1)
    by (simp add: fresh_requests)
qed

subsection \<open>The assembler\<close>

text \<open>
  Claim C1. The assembler is to return the frame of the primary fetcher when that fetcher
  succeeds, without invoking the fallback fetcher. The code does not: the print of line 87
  stands inside the \<^verbatim>\<open>try\<close> block, after the call of the primary fetcher, and its line
  begins with a check mark. On a console whose encoding has no check mark the print raises
  \<^verbatim>\<open>UnicodeEncodeError\<close>, the handler takes it for a failure of the primary fetcher and
  invokes the fallback fetcher, and the print of line 92, which begins with the same check
  mark, raises out of the assembler. The run below is that of a primary endpoint that
  answers with status 200 and one record, on a console whose encoding is ASCII: the
  primary fetcher returns a frame of one row, yet the assembler issues the GET on the
  fallback endpoint and ends with the exception.
\<close>

theorem portfolio_invokes_fallback_after_success:
  "fst (fetch_treasury_securities
     (ascii_console (stub_env (Inr (ok_response rate_body)) (Inr (ok_response sales_body)) None))
     fresh_world) =
     Inr (from_records
            (ascii_console (stub_env (Inr (ok_response rate_body)) (Inr (ok_response sales_body)) None))
            rate_records) \<and>
   get_treasury_securities_portfolio
     (ascii_console (stub_env (Inr (ok_response rate_body)) (Inr (ok_response sales_body)) None))
     fresh_world =
     (Inl UnicodeEncodeError, fresh_world\<lparr>requests := [primary_request, fallback_request]\<rparr>)"
proof -
  let ?env = "ascii_console (stub_env (Inr (ok_response rate_body)) (Inr (ok_response sales_body)) None)"
  let ?w1 = "fresh_world\<lparr>requests := [primary_request]\<rparr>"
  let ?w2 = "fresh_world\<lparr>requests := [primary_request, fallback_request]\<rparr>"
  have one: "fetch_treasury_securities ?env fresh_world = (Inr (from_records ?env rate_records), ?w1)"
    by (rule rate_fetch) (simp add: console_http_get stub_primary)
  have two: "fetch_securities_from_treasurydirect ?env ?w1 = (Inr (from_records ?env sales_records), ?w2)"
    by (rule sales_fetch) (simp add: console_http_get stub_fallback)
  have failed: "py_print ?env [Lit ''Primary API failed: '', Exc UnicodeEncodeError] = None"
    by (rule py_print_ascii) (simp add: ascii_def)
  have "try_alternative ?env UnicodeEncodeError ?w1 = (Inl UnicodeEncodeError, ?w2)"
    by (simp add: try_alternative_def failed print_trying two console_print_retrieved)
  then have "get_treasury_securities_portfolio ?env fresh_world = (Inl UnicodeEncodeError, ?w2)"
    by (simp add: get_treasury_securities_portfolio_def one console_print_retrieved)
  then show ?thesis
    using one by simp
qed

subsection \<open>Success of the fetchers\<close>

text \<open>
  Claim C2. When the primary endpoint answers with status 200 and a JSON object whose
  \<^verbatim>\<open>data\<close> key holds an array of \<open>N\<close> objects, \<^verbatim>\<open>fetch_treasury_securities\<close> returns a
  frame: it has exactly \<open>N\<close> rows, its columns are exactly the keys of those objects, each
  once, and every row has one cell per column. When the values of the objects are strings,
  the cell of a row under a column is the value of that key in the row's object, and no
  value where the object lacks the key.
\<close>

theorem primary_success_frame:
  assumes "http_get env (requests w) primary_request = Inr response"
    and "status_code response = 200"
    and "json_body response = Some (JObj body)"
    and "map_of body ''data'' = Some (JArr (map JObj recs))"
  shows "\<exists>df. fst (fetch_treasury_securities env w) = Inr df \<and>
           length (rows df) = length recs \<and>
           distinct (columns df) \<and>
           set (columns df) = (\<Union>r\<in>set recs. fst ` set r) \<and>
           (\<forall>row\<in>set (rows df). length row = length (columns df)) \<and>
           ((\<forall>r\<in>set recs. \<forall>v\<in>snd ` set r. \<exists>s. v = JStr s) \<longrightarrow>
              rows df = map (\<lambda>r. map (map_of r) (columns df)) recs)"
proof -
  have "fst (fetch_treasury_securities env w) = Inr (from_records env recs)"
    using assms by (simp add: fetch_primary_response primary_result_records)
  then show ?thesis
    using from_records_shape [of env recs] from_records_text [of recs env] by blast
qed

theorem primary_success_frame_witness:
  "\<exists>df. fst (fetch_treasury_securities
            (stub_env (Inr (ok_response rate_body)) (Inl ''ConnectionError'') None) fresh_world) = Inr df \<and>
        length (rows df) = 1 \<and>
        distinct (columns df) \<and>
        set (columns df) = {''record_date'', ''avg_interest_rate_amt''} \<and>
        rows df = map (\<lambda>r. map (map_of r) (columns df)) rate_records"
proof -
  let ?env = "stub_env (Inr (ok_response rate_body)) (Inl ''ConnectionError'') None"
  have "\<exists>df. fst (fetch_treasury_securities ?env fresh_world) = Inr df \<and>
      length (rows df) = length rate_records \<and>
      distinct (columns df) \<and>
      set (columns df) = (\<Union>r\<in>set rate_records. fst ` set r) \<and>
      (\<forall>row\<in>set (rows df). length row = length (columns df)) \<and>
      ((\<forall>r\<in>set rate_records. \<forall>v\<in>snd ` set r. \<exists>s. v = JStr s) \<longrightarrow>
         rows df = map (\<lambda>r. map (map_of r) (columns df)) rate_records)"
    by (rule primary_success_frame [where response = "ok_response rate_body"
          and body = "[(''data'', JArr (map JObj rate_records))]"])
      (simp_all add: stub_primary ok_response_def rate_body_def)
  moreover have "length rate_records = 1"
    by (simp add: rate_records_def)
  moreover have "(\<Union>r\<in>set rate_records. fst ` set r) = {''record_date'', ''avg_interest_rate_amt''}"
    by (simp add: rate_records_def)
  moreover have "\<forall>r\<in>set rate_records. \<forall>v\<in>snd ` set r. \<exists>s. v = JStr s"
    by (simp add: rate_records_def)
  ultimately show ?thesis by auto
qed

text \<open>
  Claim C9. When the fallback endpoint answers with status 200 and a JSON object whose
  \<^verbatim>\<open>data\<close> key holds an array of \<open>N\<close> objects, \<^verbatim>\<open>fetch_securities_from_treasurydirect\<close>
  returns a frame with exactly \<open>N\<close> rows whose columns are exactly the keys of those
  objects, each once, every row with one cell per column, as the primary fetcher does.
  When the values of the objects are strings, the cell of a row under a column is the value
  of that key in the row's object.
\<close>

theorem fallback_success_frame:
  assumes "http_get env (requests w) fallback_request = Inr response"
    and "status_code response = 200"
    and "json_body response = Some (JObj body)"
    and "map_of body ''data'' = Some (JArr (map JObj recs))"
  shows "\<exists>df. fst (fetch_securities_from_treasurydirect env w) = Inr df \<and>
           length (rows df) = length recs \<and>
           distinct (columns df) \<and>
           set (columns df) = (\<Union>r\<in>set recs. fst ` set r) \<and>
           (\<forall>row\<in>set (rows df). length row = length (columns df)) \<and>
           ((\<forall>r\<in>set recs. \<forall>v\<in>snd ` set r. \<exists>s. v = JStr s) \<longrightarrow>
              rows df = map (\<lambda>r. map (map_of r) (columns df)) recs)"
proof -
  have "fst (fetch_securities_from_treasurydirect env w) = Inr (from_records env recs)"
    using assms by (simp add: fetch_fallback_response fallback_result_records)
  then show ?thesis
    using from_records_shape [of env recs] from_records_text [of recs env] by blast
qed

theorem fallback_success_frame_witness:
  "\<exists>df. fst (fetch_securities_from_treasurydirect
            (stub_env (Inr not_found) (Inr (ok_response sales_body)) None) fresh_world) = Inr df \<and>
        length (rows df) = 2 \<and>
        distinct (columns df) \<and>
        set (columns df) = {''record_date'', ''security_desc'', ''amount''} \<and>
        rows df = map (\<lambda>r. map (map_of r) (columns df)) sales_records"
proof -
  let ?env = "stub_env (Inr not_found) (Inr (ok_response sales_body)) None"
  have "\<exists>df. fst (fetch_securities_from_treasurydirect ?env fresh_world) = Inr df \<and>
      length (rows df) = length sales_records \<and>
      distinct (columns df) \<and>
      set (columns df) = (\<Union>r\<in>set sales_records. fst ` set r) \<and>
      (\<forall>row\<in>set (rows df). length row = length (columns df)) \<and>
      ((\<forall>r\<in>set sales_records. \<forall>v\<in>snd ` set r. \<exists>s. v = JStr s) \<longrightarrow>
         rows df = map (\<lambda>r. map (map_of r) (columns df)) sales_records)"
    by (rule fallback_success_frame [where response = "ok_response sales_body"
          and body = "[(''meta'', JObj [(''count'', JNumber ''2'')]),
                       (''data'', JArr (map JObj sales_records))]"])
      (simp_all add: stub_fallback ok_response_def sales_body_def)
  moreover have "length sales_records = 2"
    by (simp add: sales_records_def)
  moreover have "(\<Union>r\<in>set sales_records. fst ` set r) = {''record_date'', ''security_desc'', ''amount''}"
    by (auto simp: sales_records_def)
  moreover have "\<forall>r\<in>set sales_records. \<forall>v\<in>snd ` set r. \<exists>s. v = JStr s"
    by (simp add: sales_records_def)
  ultimately show ?thesis by auto
qed

subsection \<open>Failure of the fetchers\<close>

text \<open>
  Claim C3. Given a response of the primary endpoint, \<^verbatim>\<open>fetch_treasury_securities\<close>
  raises one of the script's own exceptions exactly when the status is not 200 or the body
  parses and the test \<^verbatim>\<open>'data' not in data\<close> of line 42 holds; for a JSON object that test
  is the absence of the key \<^verbatim>\<open>data\<close>. With a status other than 200 the exception carries
  the status code and the text of the response; with status 200 and no \<^verbatim>\<open>data\<close> it
  carries the whole parsed body.
\<close>

theorem primary_failure_exactly:
  assumes "http_get env (requests w) primary_request = Inr response"
  shows "((\<exists>e. fst (fetch_treasury_securities env w) = Inl e \<and> is_RemoteRequestError e) \<longleftrightarrow>
            (status_code response \<noteq> 200 \<or>
             (\<exists>data. json_body response = Some data \<and> py_contains ''data'' data = Inr False))) \<and>
         (status_code response \<noteq> 200 \<longrightarrow>
            fst (fetch_treasury_securities env w) =
              Inl (Exception (StatusAndBody (status_code response) (resp_text response)))) \<and>
         (\<forall>data. status_code response = 200 \<and> json_body response = Some data \<and>
                 py_contains ''data'' data = Inr False \<longrightarrow>
            fst (fetch_treasury_securities env w) = Inl (Exception (NoData data)))"
proof -
  have res: "fst (fetch_treasury_securities env w) = primary_result env response"
    using assms by (simp add: fetch_primary_response)
  have "(\<exists>e. primary_result env response = Inl e \<and> is_RemoteRequestError e) \<longleftrightarrow>
        (status_code response \<noteq> 200 \<or>
         (\<exists>data. json_body response = Some data \<and> py_contains ''data'' data = Inr False))"
  proof
    assume "\<exists>e. primary_result env response = Inl e \<and> is_RemoteRequestError e"
    then obtain e where e: "primary_result env response = Inl e" "is_RemoteRequestError e"
      by blast
    then obtain m where "e = Exception m"
      by (cases e) simp_all
    then show "status_code response \<noteq> 200 \<or>
         (\<exists>data. json_body response = Some data \<and> py_contains ''data'' data = Inr False)"
      using e primary_result_raised [of env response m] by blast
  next
    assume "status_code response \<noteq> 200 \<or>
         (\<exists>data. json_body response = Some data \<and> py_contains ''data'' data = Inr False)"
    then show "\<exists>e. primary_result env response = Inl e \<and> is_RemoteRequestError e"
    proof
      assume "status_code response \<noteq> 200"
      then have "primary_result env response =
          Inl (Exception (StatusAndBody (status_code response) (resp_text response)))"
        by (rule primary_result_non_200)
      then show ?thesis by simp
    next
      assume "\<exists>data. json_body response = Some data \<and> py_contains ''data'' data = Inr False"
      then obtain data where d: "json_body response = Some data"
          "py_contains ''data'' data = Inr False"
        by blast
      show ?thesis
      proof (cases "status_code response = 200")
        case True
        then have "primary_result env response = Inl (Exception (NoData data))"
          using d by (rule primary_result_no_data)
        then show ?thesis by simp
      next
        case False
        then have "primary_result env response =
            Inl (Exception (StatusAndBody (status_code response) (resp_text response)))"
          by (rule primary_result_non_200)
        then show ?thesis by simp
      qed
    qed
  qed
  moreover have "status_code response \<noteq> 200 \<longrightarrow>
      primary_result env response =
        Inl (Exception (StatusAndBody (status_code response) (resp_text response)))"
    by (simp add: primary_result_non_200)
  moreover have "\<forall>data. status_code response = 200 \<and> json_body response = Some data \<and>
      py_contains ''data'' data = Inr False \<longrightarrow>
      primary_result env response = Inl (Exception (NoData data))"
    using primary_result_no_data [of response _ env] by blast
  ultimately show ?thesis
    unfolding res by blast
qed

theorem primary_failure_exactly_witness:
  "fst (fetch_treasury_securities (stub_env (Inr not_found) (Inl ''ConnectionError'') None) fresh_world) =
     Inl (Exception (StatusAndBody 404 ''Not Found'')) \<and>
   fst (fetch_treasury_securities
     (stub_env (Inr (ok_response foo_body)) (Inl ''ConnectionError'') None) fresh_world) =
     Inl (Exception (NoData foo_body)) \<and>
   \<not> (\<exists>e. fst (fetch_treasury_securities
     (stub_env (Inr (ok_response rate_body)) (Inl ''ConnectionError'') None) fresh_world) = Inl e \<and>
     is_RemoteRequestError e)"
proof -
  let ?down = "stub_env (Inr not_found) (Inl ''ConnectionError'') None"
  let ?nodata = "stub_env (Inr (ok_response foo_body)) (Inl ''ConnectionError'') None"
  let ?up = "stub_env (Inr (ok_response rate_body)) (Inl ''ConnectionError'') None"
  have down: "http_get ?down (requests fresh_world) primary_request = Inr not_found"
    by (simp add: stub_primary)
  have nodata: "http_get ?nodata (requests fresh_world) primary_request = Inr (ok_response foo_body)"
    by (simp add: stub_primary)
  have up: "http_get ?up (requests fresh_world) primary_request = Inr (ok_response rate_body)"
    by (simp add: stub_primary)
  have "fst (fetch_treasury_securities ?down fresh_world) =
      Inl (Exception (StatusAndBody 404 ''Not Found''))"
    using primary_failure_exactly [OF down] by (simp add: not_found_def)
  moreover have "fst (fetch_treasury_securities ?nodata fresh_world) =
      Inl (Exception (NoData foo_body))"
    using primary_failure_exactly [OF nodata] by (simp add: ok_response_def foo_body_def)
  moreover have "\<not> (\<exists>e. fst (fetch_treasury_securities ?up fresh_world) = Inl e \<and>
      is_RemoteRequestError e)"
    using primary_failure_exactly [OF up] by (simp add: ok_response_def rate_body_def)
  ultimately show ?thesis by blast
qed

text \<open>
  Claim C10. \<^verbatim>\<open>fetch_treasury_securities\<close> looks at the status before the body: with a
  status other than 200 it raises the exception carrying status and text whatever the JSON
  body is, with or without a \<^verbatim>\<open>data\<close> key; and when it raises the exception carrying
  the parsed body, the status was 200.
\<close>

theorem primary_status_checked_first:
  assumes "http_get env (requests w) primary_request = Inr response"
  shows "(status_code response \<noteq> 200 \<longrightarrow>
            fst (fetch_treasury_securities env w) =
              Inl (Exception (StatusAndBody (status_code response) (resp_text response))) \<and>
            (\<forall>j. primary_result env (response\<lparr>json_body := j\<rparr>) =
               Inl (Exception (StatusAndBody (status_code response) (resp_text response))))) \<and>
         (\<forall>d. fst (fetch_treasury_securities env w) = Inl (Exception (NoData d)) \<longrightarrow>
            status_code response = 200)"
proof (intro conjI impI allI)
  have res: "fst (fetch_treasury_securities env w) = primary_result env response"
    using assms by (simp add: fetch_primary_response)
  {
    assume bad: "status_code response \<noteq> 200"
    show "fst (fetch_treasury_securities env w) =
        Inl (Exception (StatusAndBody (status_code response) (resp_text response)))"
      unfolding res using bad by (rule primary_result_non_200)
    fix j
    have "status_code (response\<lparr>json_body := j\<rparr>) \<noteq> 200"
      using bad by simp
    then have "primary_result env (response\<lparr>json_body := j\<rparr>) =
        Inl (Exception (StatusAndBody (status_code (response\<lparr>json_body := j\<rparr>))
          (resp_text (response\<lparr>json_body := j\<rparr>))))"
      by (rule primary_result_non_200)
    then show "primary_result env (response\<lparr>json_body := j\<rparr>) =
        Inl (Exception (StatusAndBody (status_code response) (resp_text response)))"
      by simp
  }
  fix d
  assume "fst (fetch_treasury_securities env w) = Inl (Exception (NoData d))"
  then have "primary_result env response = Inl (Exception (NoData d))"
    unfolding res .
  then show "status_code response = 200"
    using primary_result_raised [of env response "NoData d"] by blast
qed

theorem primary_status_checked_first_witness:
  "fst (fetch_treasury_securities (stub_env (Inr unavailable) (Inl ''ConnectionError'') None) fresh_world) =
     Inl (Exception (StatusAndBody 503 ''Service Unavailable'')) \<and>
   primary_result (stub_env (Inr unavailable) (Inl ''ConnectionError'') None)
     (unavailable\<lparr>json_body := Some foo_body\<rparr>) =
     Inl (Exception (StatusAndBody 503 ''Service Unavailable'')) \<and>
   fst (fetch_treasury_securities
     (stub_env (Inr (ok_response foo_body)) (Inl ''ConnectionError'') None) fresh_world) =
     Inl (Exception (NoData foo_body)) \<and>
   status_code (ok_response foo_body) = 200"
proof -
  let ?down = "stub_env (Inr unavailable) (Inl ''ConnectionError'') None"
  let ?nodata = "stub_env (Inr (ok_response foo_body)) (Inl ''ConnectionError'') None"
  have down: "http_get ?down (requests fresh_world) primary_request = Inr unavailable"
    by (simp add: stub_primary)
  have nodata: "http_get ?nodata (requests fresh_world) primary_request = Inr (ok_response foo_body)"
    by (simp add: stub_primary)
  have "primary_result ?nodata (ok_response foo_body) = Inl (Exception (NoData foo_body))"
    by (simp add: primary_result_def ok_response_def foo_body_def)
  then have raised: "fst (fetch_treasury_securities ?nodata fresh_world) =
      Inl (Exception (NoData foo_body))"
    by (simp add: fetch_primary_response [OF nodata])
  have "status_code (ok_response foo_body) = 200"
    using primary_status_checked_first [OF nodata] raised by blast
  moreover have "status_code unavailable \<noteq> 200" "status_code unavailable = 503"
      "resp_text unavailable = ''Service Unavailable''"
    by (simp_all add: unavailable_def)
  ultimately show ?thesis
    using primary_status_checked_first [OF down] raised by simp
qed

text \<open>
  Claim C6. When the fallback endpoint answers with a status other than 200,
  \<^verbatim>\<open>fetch_securities_from_treasurydirect\<close> raises the exception that carries the status
  code alone: the same exception whatever the text and the JSON body of the response.
\<close>

theorem fallback_non_200_status_only:
  assumes "http_get env (requests w) fallback_request = Inr response"
    and "status_code response \<noteq> 200"
  shows "fst (fetch_securities_from_treasurydirect env w) =
           Inl (Exception (StatusOnly (status_code response))) \<and>
         (\<forall>t j. fallback_result env (response\<lparr>resp_text := t, json_body := j\<rparr>) =
            Inl (Exception (StatusOnly (status_code response))))"
  using assms by (simp add: fetch_fallback_response fallback_result_def)

theorem fallback_non_200_status_only_witness:
  "fst (fetch_securities_from_treasurydirect
     (stub_env (Inr not_found) (Inr unavailable) None) fresh_world) =
     Inl (Exception (StatusOnly 503)) \<and>
   fallback_result (stub_env (Inr not_found) (Inr unavailable) None)
     (unavailable\<lparr>resp_text := ''Bad Gateway'', json_body := None\<rparr>) =
     Inl (Exception (StatusOnly 503))"
proof -
  let ?env = "stub_env (Inr not_found) (Inr unavailable) None"
  have got: "http_get ?env (requests fresh_world) fallback_request = Inr unavailable"
    by (simp add: stub_fallback)
  have st: "status_code unavailable \<noteq> 200"
    by (simp add: unavailable_def)
  have code: "status_code unavailable = 503"
    by (simp add: unavailable_def)
  show ?thesis
    using fallback_non_200_status_only [OF got st] by (simp add: code)
qed

text \<open>
  Claim C5. When the fallback endpoint answers with status 200 and a JSON object without
  the key \<^verbatim>\<open>data\<close>, \<^verbatim>\<open>fetch_securities_from_treasurydirect\<close> does not raise: it returns
  the empty frame, with no row and no column.
\<close>

theorem fallback_missing_data_key_empty:
  assumes "http_get env (requests w) fallback_request = Inr response"
    and "status_code response = 200"
    and "json_body response = Some (JObj body)"
    and "''data'' \<notin> fst ` set body"
  shows "fst (fetch_securities_from_treasurydirect env w) = Inr \<lparr>columns = [], rows = []\<rparr>"
proof -
  have "map_of body ''data'' = None"
    using assms(4) by (simp add: map_of_eq_None_iff)
  then have "fallback_result env response = Inr \<lparr>columns = [], rows = []\<rparr>"
    using assms(2) assms(3) by (simp add: fallback_result_def DataFrame_empty)
  then show ?thesis
    using assms(1) by (simp add: fetch_fallback_response)
qed

theorem fallback_missing_data_key_empty_witness:
  "fst (fetch_securities_from_treasurydirect
     (stub_env (Inr not_found) (Inr (ok_response foo_body)) None) fresh_world) =
     Inr \<lparr>columns = [], rows = []\<rparr>"
proof -
  let ?env = "stub_env (Inr not_found) (Inr (ok_response foo_body)) None"
  show ?thesis
    by (rule fallback_missing_data_key_empty [where response = "ok_response foo_body"
          and body = "[(''foo'', JArr [])]"])
      (simp_all add: stub_fallback ok_response_def foo_body_def)
qed

subsection \<open>Failure and the fallback\<close>

text \<open>
  Claim C4. A primary response with status 200 and a body without a \<^verbatim>\<open>data\<close> key is to
  make the run go on to the fallback fetcher. The primary fetcher does raise, with the
  parsed body in the text of the exception, and no frame is made of the response. But the
  handler of the assembler prints that text in line 89 before it calls the fallback
  fetcher: on a console that cannot encode the body the print raises
  \<^verbatim>\<open>UnicodeEncodeError\<close> out of the assembler and the fallback fetcher is never invoked.
  The run below is that of a primary endpoint that answers with status 200 and a body
  without a \<^verbatim>\<open>data\<close> key holding an accented letter, on a console whose encoding is
  ASCII: the only request of the assembler is the GET on the primary endpoint.
\<close>

theorem missing_data_key_fallback_not_invoked:
  "fetch_treasury_securities
     (ascii_console (stub_env (Inr (ok_response accent_body)) (Inr (ok_response sales_body)) None))
     fresh_world =
     (Inl (Exception (NoData accent_body)), fresh_world\<lparr>requests := [primary_request]\<rparr>) \<and>
   \<not> has_data_key accent_body \<and>
   get_treasury_securities_portfolio
     (ascii_console (stub_env (Inr (ok_response accent_body)) (Inr (ok_response sales_body)) None))
     fresh_world =
     (Inl UnicodeEncodeError, fresh_world\<lparr>requests := [primary_request]\<rparr>)"
proof -
  let ?env = "ascii_console (stub_env (Inr (ok_response accent_body)) (Inr (ok_response sales_body)) None)"
  let ?w1 = "fresh_world\<lparr>requests := [primary_request]\<rparr>"
  have "fetch_treasury_securities ?env fresh_world =
      (Inl (Exception (NoData (JObj [(''foo'', JArr [JStr [CHR 0xC3, CHR 0xA9]])]))), ?w1)"
    by (rule no_data_fetch) (simp_all add: console_http_get stub_primary accent_body_def)
  then have one: "fetch_treasury_securities ?env fresh_world =
      (Inl (Exception (NoData accent_body)), ?w1)"
    by (simp add: accent_body_def)
  have "py_print ?env [Lit ''Primary API failed: '', Exc (Exception (NoData accent_body))] =
      Some UnicodeEncodeError"
    by (simp add: console_print accent_body_def ascii_def)
  then have "try_alternative ?env (Exception (NoData accent_body)) ?w1 = (Inl UnicodeEncodeError, ?w1)"
    by (rule try_alternative_not_printed)
  then have "get_treasury_securities_portfolio ?env fresh_world = (Inl UnicodeEncodeError, ?w1)"
    using portfolio_primary_failed [OF one] by simp
  moreover have "\<not> has_data_key accent_body"
    by (simp add: accent_body_def)
  ultimately show ?thesis
    using one by simp
qed

subsection \<open>The driver\<close>

lemma driver_try_failed:
  "get_treasury_securities_portfolio env w = (Inl e, w1) \<Longrightarrow> driver_try env w = (Inl e, w1)"
  by (simp add: driver_try_def)

lemma main_failed:
  assumes "driver_try env w = (Inl e, w1)"
  shows "(fst (main env w) = Inl e \<or> fst (main env w) = Inl UnicodeEncodeError) \<and>
         snd (main env w) = w1"
proof (cases "prints env
    [[Lit (newline @ ballot_x @ '' ERROR: ''), Exc e],
     [Lit (newline @ ''The API may have changed or may be temporarily unavailable.'')],
     [Lit (''Please verify the API endpoint at: '' @
           ''https://fiscaldata.treasury.gov/api-documentation/'')]]")
  case None
  then show ?thesis
    using assms by (simp add: main_def prints_banner del: prints.simps)
next
  case (Some raised)
  then have "raised = UnicodeEncodeError" by (rule prints_raises)
  then show ?thesis
    using assms Some by (simp add: main_def prints_banner del: prints.simps)
qed

lemma main_success:
  assumes "fst (main env w) = Inr ()"
    and "fst (get_treasury_securities_portfolio env w) = Inr df"
  shows "files (snd (main env w)) output_file = Some (to_csv env df)"
proof (cases "get_treasury_securities_portfolio env w")
  case (Pair r w1)
  then have r: "r = Inr df" using assms(2) by simp
  show ?thesis
  proof (cases "driver_try env w")
    case run: (Pair u w2)
    have "\<exists>x. u = Inr x"
      using assms(1) run
      by (cases u) (simp_all add: main_def prints_banner split: option.splits del: prints.simps)
    then have "w2 = w1\<lparr>files := (files w1)(output_file \<mapsto> to_csv env df)\<rparr>"
      using run Pair r
      by (auto simp: driver_try_def Let_def split: option.splits simp del: prints.simps)
    then show ?thesis
      using assms(1) run
      by (cases u) (simp_all add: main_def prints_banner split: option.splits del: prints.simps)
  qed
qed

text \<open>
  Claim C7. When the primary fetcher raises and the fallback fetcher raises too, the run
  ends with an exception and the files on disk are what they were before the run: no CSV
  file is written. In a run that invokes the fallback fetcher (its GET follows the GET on
  the primary endpoint in the requests of the assembler), the assembler ends with the
  exception of the fallback fetcher and that exception reaches the driver: it is what the
  \<^verbatim>\<open>try\<close> block of the driver ends with. The handler of the driver raises it again,
  unless one of its own prints raises \<^verbatim>\<open>UnicodeEncodeError\<close> in its place.
\<close>

theorem both_sources_fail:
  assumes "fetch_treasury_securities env w = (Inl e1, w1)"
    and "fetch_securities_from_treasurydirect env w1 = (Inl e2, w2)"
  shows "(\<exists>e. fst (main env w) = Inl e) \<and>
         files (snd (main env w)) = files w \<and>
         (requests (snd (get_treasury_securities_portfolio env w)) =
            requests w @ [primary_request, fallback_request] \<longrightarrow>
          get_treasury_securities_portfolio env w = (Inl e2, w2) \<and>
          driver_try env w = (Inl e2, w2) \<and>
          (fst (main env w) = Inl e2 \<or> fst (main env w) = Inl UnicodeEncodeError) \<and>
          snd (main env w) = w2)"
proof -
  have w1: "w1 = w\<lparr>requests := requests w @ [primary_request]\<rparr>"
    using fetch_primary_world [of env w] assms(1) by simp
  have w2: "w2 = w1\<lparr>requests := requests w1 @ [fallback_request]\<rparr>"
    using fetch_fallback_world [of env w1] assms(2) by simp
  have alt: "get_treasury_securities_portfolio env w = try_alternative env e1 w1"
    using assms(1) by (rule portfolio_primary_failed)
  show ?thesis
  proof (cases "py_print env [Lit ''Primary API failed: '', Exc e1]")
    case None
    then have "try_alternative env e1 w1 = (Inl e2, w2)"
      using assms(2) by (rule try_alternative_failed)
    then have p: "get_treasury_securities_portfolio env w = (Inl e2, w2)"
      using alt by simp
    then have d: "driver_try env w = (Inl e2, w2)"
      by (rule driver_try_failed)
    have "files w2 = files w"
      using w1 w2 by simp
    then show ?thesis
      using p d main_failed [OF d] by auto
  next
    case (Some raised)
    then have "try_alternative env e1 w1 = (Inl raised, w1)"
      by (rule try_alternative_not_printed)
    then have p: "get_treasury_securities_portfolio env w = (Inl raised, w1)"
      using alt by simp
    then have d: "driver_try env w = (Inl raised, w1)"
      by (rule driver_try_failed)
    have "requests w1 \<noteq> requests w @ [primary_request, fallback_request]"
      using w1 by simp
    moreover have "files w1 = files w"
      using w1 by simp
    ultimately show ?thesis
      using p main_failed [OF d] by auto
  qed
qed

theorem both_sources_fail_witness:
  "main (stub_env (Inr not_found) (Inr unavailable) None) fresh_world =
     (Inl (Exception (StatusOnly 503)),
      fresh_world\<lparr>requests := [primary_request, fallback_request]\<rparr>) \<and>
   get_treasury_securities_portfolio (stub_env (Inr not_found) (Inr unavailable) None) fresh_world =
     (Inl (Exception (StatusOnly 503)),
      fresh_world\<lparr>requests := [primary_request, fallback_request]\<rparr>) \<and>
   files (snd (main (stub_env (Inr not_found) (Inr unavailable) None) fresh_world)) output_file = None"
proof -
  let ?env = "stub_env (Inr not_found) (Inr unavailable) None"
  let ?w1 = "fresh_world\<lparr>requests := [primary_request]\<rparr>"
  let ?w2 = "fresh_world\<lparr>requests := [primary_request, fallback_request]\<rparr>"
  have one: "fetch_treasury_securities ?env fresh_world =
      (Inl (Exception (StatusAndBody 404 ''Not Found'')), ?w1)"
    by (simp add: fetch_primary_response [where response = not_found] stub_primary
        primary_result_def not_found_def fresh_requests)
  have two: "fetch_securities_from_treasurydirect ?env ?w1 = (Inl (Exception (StatusOnly 503)), ?w2)"
    by (simp add: fetch_fallback_response [where response = unavailable] stub_fallback
        fallback_result_def unavailable_def)
  have alt: "try_alternative ?env (Exception (StatusAndBody 404 ''Not Found'')) ?w1 =
      (Inl (Exception (StatusOnly 503)), ?w2)"
    using two by (simp add: try_alternative_def stub_print)
  have log: "requests (snd (get_treasury_securities_portfolio ?env fresh_world)) =
      requests fresh_world @ [primary_request, fallback_request]"
    using portfolio_primary_failed [OF one] alt by (simp add: fresh_requests)
  have run: "fst (main ?env fresh_world) = Inl (Exception (StatusOnly 503))"
    using portfolio_primary_failed [OF one] alt
    by (simp add: main_def driver_try_def prints_banner stub_prints del: prints.simps)
  have "snd (main ?env fresh_world) = ?w2"
    using both_sources_fail [OF one two] log by blast
  moreover have "get_treasury_securities_portfolio ?env fresh_world =
      (Inl (Exception (StatusOnly 503)), ?w2)"
    using both_sources_fail [OF one two] log by blast
  moreover have "files (snd (main ?env fresh_world)) output_file = None"
    using both_sources_fail [OF one two] by (simp add: fresh_files)
  ultimately show ?thesis
    using run by (simp add: prod_eq_iff)
qed

subsection \<open>The CSV file\<close>

lemma cell_text_lookup:
  "cell_text c = (case c of Some (JStr s) \<Rightarrow> s | _ \<Rightarrow> [])"
  by (cases c rule: cell_text.cases) simp_all

lemma text_cells_of_records:
  assumes "\<forall>r\<in>set recs. \<forall>v\<in>snd ` set r. \<exists>s. v = JStr s"
  shows "list_all (list_all is_text_cell) (rows (from_records env recs))"
proof -
  have "list_all is_text_cell (map (map_of r) cols)" if "r \<in> set recs" for r cols
    using assms that by (simp add: list_all_iff text_cells_of_record)
  then show ?thesis
    unfolding from_records_text [OF assms] by (simp add: list_all_iff)
qed

lemma to_csv_records:
  assumes "\<forall>r\<in>set recs. \<forall>v\<in>snd ` set r. \<exists>s. v = JStr s"
  shows "to_csv env (from_records env recs) =
     writerow (columns (from_records env recs)) #
     map (\<lambda>r. writerow (map (\<lambda>c. case map_of r c of Some (JStr s) \<Rightarrow> s | _ \<Rightarrow> [])
                          (columns (from_records env recs)))) recs"
proof -
  have "to_csv env (from_records env recs) =
      writerow (columns (from_records env recs)) #
      map (\<lambda>r. writerow (map cell_text r)) (rows (from_records env recs))"
    using text_cells_of_records [OF assms, of env] by (simp add: to_csv_def)
  also have "map (\<lambda>r. writerow (map cell_text r)) (rows (from_records env recs)) =
      map (\<lambda>r. writerow (map (\<lambda>c. case map_of r c of Some (JStr s) \<Rightarrow> s | _ \<Rightarrow> [])
                           (columns (from_records env recs)))) recs"
    unfolding from_records_text [OF assms] by (simp add: comp_def cell_text_lookup)
  finally show ?thesis .
qed

lemma csv_field_plain: "\<not> list_ex csv_special s \<Longrightarrow> csv_field s = s"
  by (simp add: csv_field_def)

lemma writerow_plain:
  assumes "\<And>f. f \<in> set fs \<Longrightarrow> \<not> list_ex csv_special f" and "fs \<noteq> [[]]"
  shows "writerow fs = join '','' fs"
proof -
  have "map csv_field fs = fs"
    using assms(1) by (induction fs) (simp_all add: csv_field_plain)
  then show ?thesis using assms(2) by (simp add: writerow_def)
qed

lemma rate_columns:
  "columns (from_records env rate_records) = [''record_date'', ''avg_interest_rate_amt'']"
  by (simp add: from_records_def fast_unique_def rate_records_def)

lemma sales_columns:
  "columns (from_records env sales_records) = [''record_date'', ''security_desc'', ''amount'']"
  by (simp add: from_records_def fast_unique_def sales_records_def)

lemma rate_lines:
  "writerow [''record_date'', ''avg_interest_rate_amt''] = ''record_date,avg_interest_rate_amt''"
  "writerow [''2025-01-01'', ''4.5''] = ''2025-01-01,4.5''"
  by (simp_all add: writerow_def csv_field_def csv_special_def)

lemma sales_lines:
  "writerow [''record_date'', ''security_desc'', ''amount''] = ''record_date,security_desc,amount''"
  "writerow [''2024-03-01'', ''Bills'', []] = ''2024-03-01,Bills,''"
  "writerow [[], ''Notes'', ''12,5''] = '',Notes,'' @ [CHR 0x22] @ ''12,5'' @ [CHR 0x22]"
  by (simp_all add: writerow_def csv_field_def csv_special_def)

lemma rate_run:
  "get_treasury_securities_portfolio
     (stub_env (Inr (ok_response rate_body)) f None) fresh_world =
     (Inr (from_records (stub_env (Inr (ok_response rate_body)) f None) rate_records),
      fresh_world\<lparr>requests := [primary_request]\<rparr>)"
proof -
  let ?env = "stub_env (Inr (ok_response rate_body)) f None"
  have "fetch_treasury_securities ?env fresh_world =
      (Inr (from_records ?env rate_records), fresh_world\<lparr>requests := [primary_request]\<rparr>)"
    by (rule rate_fetch) (simp add: stub_primary)
  then show ?thesis
    by (rule portfolio_primary_ok) (rule stub_print)
qed

lemma sales_run:
  "get_treasury_securities_portfolio
     (stub_env (Inr (ok_response foo_body)) (Inr (ok_response sales_body)) None) fresh_world =
     (Inr (from_records (stub_env (Inr (ok_response foo_body)) (Inr (ok_response sales_body)) None)
             sales_records),
      fresh_world\<lparr>requests := [primary_request, fallback_request]\<rparr>)"
proof -
  let ?env = "stub_env (Inr (ok_response foo_body)) (Inr (ok_response sales_body)) None"
  have "fetch_treasury_securities ?env fresh_world =
      (Inl (Exception (NoData (JObj [(''foo'', JArr [])]))), fresh_world\<lparr>requests := [primary_request]\<rparr>)"
    by (rule no_data_fetch) (simp_all add: stub_primary foo_body_def)
  then have alt: "get_treasury_securities_portfolio ?env fresh_world =
      try_alternative ?env (Exception (NoData (JObj [(''foo'', JArr [])])))
        (fresh_world\<lparr>requests := [primary_request]\<rparr>)"
    by (rule portfolio_primary_failed)
  have "fetch_securities_from_treasurydirect ?env (fresh_world\<lparr>requests := [primary_request]\<rparr>) =
      (Inr (from_records ?env sales_records), fresh_world\<lparr>requests := [primary_request, fallback_request]\<rparr>)"
    by (rule sales_fetch) (simp add: stub_fallback)
  then show ?thesis
    unfolding alt by (simp add: try_alternative_def stub_print)
qed

lemma stub_run:
  assumes "get_treasury_securities_portfolio (stub_env p f None) w = (Inr df, w1)"
  shows "fst (main (stub_env p f None) w) = Inr ()"
  using assms
  by (simp add: main_def driver_try_def stub_prints stub_print stub_describe Let_def
      del: prints.simps)

text \<open>
  Claim C8. After a run that ends without an exception, on a frame made from records whose
  values are strings, the CSV file holds a header followed by one line per record. The
  header is the record that the CSV writer makes of the column labels, and the labels are
  the keys of the records, each once, in the order in which they are first met: a label
  that stands before another is met in the records before any occurrence of the other.
  The line of a record is what the writer makes of the record's values, one field per
  column, each value as the string it is and the empty field where the record has no such
  key. The writer joins the fields of a record with commas and leaves them as they are,
  unless a field holds a comma, a double quote or a line break, or the record is one empty
  field. For the response
  \<^verbatim>\<open>{"data": [{"record_date": "2025-01-01", "avg_interest_rate_amt": "4.5"}]}\<close> the file is
  the two lines \<^verbatim>\<open>record_date,avg_interest_rate_amt\<close> and \<^verbatim>\<open>2025-01-01,4.5\<close>.
\<close>

theorem csv_file_of_successful_run:
  assumes "fst (main env w) = Inr ()"
    and "fst (get_treasury_securities_portfolio env w) = Inr (from_records env recs)"
    and "\<forall>r\<in>set recs. \<forall>v\<in>snd ` set r. \<exists>s. v = JStr s"
  shows "(\<exists>header body.
            files (snd (main env w)) output_file = Some (header # body) \<and>
            header = writerow (columns (from_records env recs)) \<and>
            length body = length recs \<and>
            body = map (\<lambda>r. writerow (map (\<lambda>c. case map_of r c of Some (JStr s) \<Rightarrow> s | _ \<Rightarrow> [])
                                      (columns (from_records env recs)))) recs) \<and>
         distinct (columns (from_records env recs)) \<and>
         set (columns (from_records env recs)) = (\<Union>r\<in>set recs. fst ` set r) \<and>
         (\<forall>ps a qs b. columns (from_records env recs) = ps @ a # qs \<and> b \<in> set qs \<longrightarrow>
            (\<exists>us vs. concat (map (map fst) recs) = us @ a # vs \<and> a \<notin> set us \<and> b \<notin> set us)) \<and>
         (\<forall>fs. (\<forall>f\<in>set fs. \<not> list_ex csv_special f) \<and> fs \<noteq> [[]] \<longrightarrow>
            writerow fs = join '','' fs)"
proof -
  have written: "files (snd (main env w)) output_file = Some (to_csv env (from_records env recs))"
    using assms(1) assms(2) by (rule main_success)
  have csv: "to_csv env (from_records env recs) =
      writerow (columns (from_records env recs)) #
      map (\<lambda>r. writerow (map (\<lambda>c. case map_of r c of Some (JStr s) \<Rightarrow> s | _ \<Rightarrow> [])
                           (columns (from_records env recs)))) recs"
    using assms(3) by (rule to_csv_records)
  have first: "\<exists>header body.
      files (snd (main env w)) output_file = Some (header # body) \<and>
      header = writerow (columns (from_records env recs)) \<and>
      length body = length recs \<and>
      body = map (\<lambda>r. writerow (map (\<lambda>c. case map_of r c of Some (JStr s) \<Rightarrow> s | _ \<Rightarrow> [])
                                (columns (from_records env recs)))) recs"
    unfolding written csv by simp
  have cols: "columns (from_records env recs) = fast_unique (map (map fst) recs)"
    by (simp add: from_records_def Let_def)
  have order: "\<forall>ps a qs b. columns (from_records env recs) = ps @ a # qs \<and> b \<in> set qs \<longrightarrow>
      (\<exists>us vs. concat (map (map fst) recs) = us @ a # vs \<and> a \<notin> set us \<and> b \<notin> set us)"
    unfolding cols using fast_unique_order [of "map (map fst) recs"] by blast
  have plain: "\<forall>fs. (\<forall>f\<in>set fs. \<not> list_ex csv_special f) \<and> fs \<noteq> [[]] \<longrightarrow>
      writerow fs = join '','' fs"
    using writerow_plain by blast
  show ?thesis
    using first order plain from_records_shape [of env recs] by blast
qed

theorem csv_file_of_successful_run_witness:
  "fst (main (stub_env (Inr (ok_response rate_body)) (Inl ''ConnectionError'') None) fresh_world) = Inr () \<and>
   files (snd (main (stub_env (Inr (ok_response rate_body)) (Inl ''ConnectionError'') None) fresh_world))
     output_file = Some [''record_date,avg_interest_rate_amt'', ''2025-01-01,4.5''] \<and>
   fst (main (stub_env (Inr (ok_response foo_body)) (Inr (ok_response sales_body)) None) fresh_world) = Inr () \<and>
   files (snd (main (stub_env (Inr (ok_response foo_body)) (Inr (ok_response sales_body)) None) fresh_world))
     output_file =
     Some [''record_date,security_desc,amount'', ''2024-03-01,Bills,'',
           '',Notes,'' @ [CHR 0x22] @ ''12,5'' @ [CHR 0x22]]"
proof -
  let ?rate = "stub_env (Inr (ok_response rate_body)) (Inl ''ConnectionError'') None"
  let ?sales = "stub_env (Inr (ok_response foo_body)) (Inr (ok_response sales_body)) None"
  have rate_ok: "fst (main ?rate fresh_world) = Inr ()"
    using rate_run by (rule stub_run)
  have rate_df: "fst (get_treasury_securities_portfolio ?rate fresh_world) =
      Inr (from_records ?rate rate_records)"
    by (simp add: rate_run)
  have rate_str: "\<forall>r\<in>set rate_records. \<forall>v\<in>snd ` set r. \<exists>s. v = JStr s"
    by (simp add: rate_records_def)
  have sales_ok: "fst (main ?sales fresh_world) = Inr ()"
    using sales_run by (rule stub_run)
  have sales_df: "fst (get_treasury_securities_portfolio ?sales fresh_world) =
      Inr (from_records ?sales sales_records)"
    by (simp add: sales_run)
  have sales_str: "\<forall>r\<in>set sales_records. \<forall>v\<in>snd ` set r. \<exists>s. v = JStr s"
    by (simp add: sales_records_def)
  obtain header body where rate_file:
      "files (snd (main ?rate fresh_world)) output_file = Some (header # body)"
      "header = writerow (columns (from_records ?rate rate_records))"
      "body = map (\<lambda>r. writerow (map (\<lambda>c. case map_of r c of Some (JStr s) \<Rightarrow> s | _ \<Rightarrow> [])
                                (columns (from_records ?rate rate_records)))) rate_records"
    using csv_file_of_successful_run [OF rate_ok rate_df rate_str] by blast
  have "header = ''record_date,avg_interest_rate_amt''"
    using rate_file(2) unfolding rate_columns by (simp add: rate_lines)
  moreover have "body = [''2025-01-01,4.5'']"
    using rate_file(3) unfolding rate_columns by (simp add: rate_records_def rate_lines)
  ultimately have rate_csv: "files (snd (main ?rate fresh_world)) output_file =
      Some [''record_date,avg_interest_rate_amt'', ''2025-01-01,4.5'']"
    using rate_file(1) by simp
  obtain header' body' where sales_file:
      "files (snd (main ?sales fresh_world)) output_file = Some (header' # body')"
      "header' = writerow (columns (from_records ?sales sales_records))"
      "body' = map (\<lambda>r. writerow (map (\<lambda>c. case map_of r c of Some (JStr s) \<Rightarrow> s | _ \<Rightarrow> [])
                                 (columns (from_records ?sales sales_records)))) sales_records"
    using csv_file_of_successful_run [OF sales_ok sales_df sales_str] by blast
  have "header' = ''record_date,security_desc,amount''"
    using sales_file(2) unfolding sales_columns by (simp add: sales_lines)
  moreover have "body' = [''2024-03-01,Bills,'', '',Notes,'' @ [CHR 0x22] @ ''12,5'' @ [CHR 0x22]]"
    using sales_file(3) unfolding sales_columns by (simp add: sales_records_def sales_lines)
  ultimately have sales_csv: "files (snd (main ?sales fresh_world)) output_file =
      Some [''record_date,security_desc,amount'', ''2024-03-01,Bills,'',
            '',Notes,'' @ [CHR 0x22] @ ''12,5'' @ [CHR 0x22]]"
    using sales_file(1) by simp
  show ?thesis
    using rate_ok sales_ok rate_csv sales_csv by simp
qed

end
